theory Spec2Isabelle
  imports Main "HOL-Library.Word" "HOL-Library.Sublist"
begin

unbundle bit_operations_syntax

section \<open>Shared vocabulary of ykman/device.py\<close>

text \<open>
  Python 2 byte strings are lists of bytes; Python integers are unbounded, so bitmasks
  are \<open>int\<close> with the bit operations of HOL.
\<close>

type_synonym byte = "8 word"

text \<open>The exceptions that the modelled code raises or lets through.\<close>

datatype exn =
    ValueError string
  | AssertionError
  | AttributeError
  | DecodeFault
  | DriverError string
  | FailedOpeningDeviceException exn

text \<open>
  Modelled from the spec: the enumerations \<open>CAPABILITY\<close> and \<open>TRANSPORT\<close> of
  ykman/util.py, which is not among the sources. The spec (sections 3 and 6) makes the
  transport flags disjoint powers of two that are combined in one mask with the
  capability flags; line 68 of device.py reads the mask \<open>0x07\<close> as OTP, U2F and CCID
  together, so the three flags are 1, 2 and 4.
\<close>

datatype TRANSPORT = OTP | U2F | CCID

definition CAPABILITY_OTP :: int where "CAPABILITY_OTP = 1"
definition CAPABILITY_U2F :: int where "CAPABILITY_U2F = 2"
definition CAPABILITY_CCID :: int where "CAPABILITY_CCID = 4"

fun TRANSPORT_value :: "TRANSPORT \<Rightarrow> int" where
  "TRANSPORT_value OTP = CAPABILITY_OTP"
| "TRANSPORT_value U2F = CAPABILITY_U2F"
| "TRANSPORT_value CCID = CAPABILITY_CCID"

text \<open>\<open>sum(TRANSPORT)\<close>: the arithmetic sum of the three flags.\<close>

definition sum_TRANSPORT :: int where
  "sum_TRANSPORT = TRANSPORT_value OTP + TRANSPORT_value U2F + TRANSPORT_value CCID"

text \<open>
  Modelled from the spec: the class \<open>Mode\<close> of ykman/util.py (not among the sources),
  a pairing of a numeric code and a mask of enabled transports (spec section 3). Two
  modes are equal when both components are; \<open>has_transport\<close> tests that the flag of
  the transport is set in the mask.
\<close>

record Mode =
  code :: int
  transports :: int

definition has_transport :: "Mode \<Rightarrow> TRANSPORT \<Rightarrow> bool" where
  "has_transport m t = (transports m AND TRANSPORT_value t = TRANSPORT_value t)"

text \<open>
  Modelled from the spec: the driver abstraction of ykman/driver.py (not among the
  sources; spec section 6). A driver reports its transport, version, cached mode and
  serial, whether it is a Security Key, the bytes that \<open>read_capabilities()\<close> returns
  and the mask that \<open>probe_capabilities_support()\<close> returns. The commands issued to
  the hardware through \<open>set_mode\<close> are kept in a log, oldest first.
\<close>

record Driver =
  drv_transport :: TRANSPORT
  drv_version :: "nat \<times> nat \<times> nat"
  drv_mode :: Mode
  drv_serial :: "int option"
  drv_sky :: bool
  drv_read_capabilities :: "byte list"
  drv_probe_capabilities_support :: int
  drv_commands :: "(int \<times> int \<times> int) list"

definition driver_set_mode :: "Driver \<Rightarrow> int \<Rightarrow> int \<Rightarrow> int \<Rightarrow> Driver" where
  "driver_set_mode d flags cr_timeout autoeject_time =
     d\<lparr>drv_commands := drv_commands d @ [(flags, cr_timeout, autoeject_time)]\<rparr>"

text \<open>Python compares version tuples lexicographically.\<close>

fun version_ge :: "nat \<times> nat \<times> nat \<Rightarrow> nat \<times> nat \<times> nat \<Rightarrow> bool" where
  "version_ge (a, b, c) (x, y, z) = (a > x \<or> (a = x \<and> (b > y \<or> (b = y \<and> c \<ge> z))))"

fun version_le :: "nat \<times> nat \<times> nat \<Rightarrow> nat \<times> nat \<times> nat \<Rightarrow> bool" where
  "version_le (a, b, c) (x, y, z) = (a < x \<or> (a = x \<and> (b < y \<or> (b = y \<and> c \<le> z))))"

section \<open>TLV decoding\<close>

text \<open>
  Modelled from the spec: \<open>parse_tlv_list\<close> of ykman/util.py (not among the sources;
  spec section 4.1). Records of one tag byte, one length byte and that many value
  bytes are consumed left to right until the buffer is exhausted; a record whose
  declared length exceeds the remaining bytes, or that has no length byte, is a
  malformed-input error; a later occurrence of a tag overwrites an earlier one.
\<close>

fun parse_tlv_acc :: "(nat \<rightharpoonup> byte list) \<Rightarrow> byte list \<Rightarrow> exn + (nat \<rightharpoonup> byte list)" where
  "parse_tlv_acc parsed [] = Inr parsed"
| "parse_tlv_acc parsed [t] = Inl DecodeFault"
| "parse_tlv_acc parsed (t # l # data) =
     (if unat l > length data then Inl DecodeFault
      else parse_tlv_acc (parsed(unat t \<mapsto> take (unat l) data)) (drop (unat l) data))"

definition parse_tlv_list :: "byte list \<Rightarrow> exn + (nat \<rightharpoonup> byte list)" where
  "parse_tlv_list data = parse_tlv_acc Map.empty data"

text \<open>
  \<open>int(s.encode('hex'), 16)\<close>: the big-endian value of the bytes of \<open>s\<close>; on the
  empty string \<open>int('', 16)\<close> raises ValueError.
\<close>

definition be_value :: "byte list \<Rightarrow> int" where
  "be_value bs = foldl (\<lambda>acc b. acc * 256 + uint b) 0 bs"

definition hex_int :: "byte list \<Rightarrow> exn + int" where
  "hex_int bs = (if bs = [] then Inl (ValueError ''invalid literal for int() with base 16'')
                 else Inr (be_value bs))"

section \<open>The device handle\<close>

definition YK4_CAPA_TAG :: nat where "YK4_CAPA_TAG = 1"
definition YK4_SERIAL_TAG :: nat where "YK4_SERIAL_TAG = 2"
definition YK4_ENABLED_TAG :: nat where "YK4_ENABLED_TAG = 3"

record YubiKey =
  device_name :: string
  capabilities :: int
  enabled :: int
  priv_serial :: "int option"
  priv_driver :: Driver

text \<open>The properties of the handle that read through to the driver.\<close>

definition version :: "YubiKey \<Rightarrow> nat \<times> nat \<times> nat" where
  "version self = drv_version (priv_driver self)"

definition transport :: "YubiKey \<Rightarrow> TRANSPORT" where
  "transport self = drv_transport (priv_driver self)"

definition mode :: "YubiKey \<Rightarrow> Mode" where
  "mode self = drv_mode (priv_driver self)"

text \<open>Truthiness of an optional integer: \<open>None\<close> and \<open>0\<close> are false.\<close>

fun truthy :: "int option \<Rightarrow> bool" where
  "truthy None = False"
| "truthy (Some n) = (n \<noteq> 0)"

text \<open>\<open>self._serial or self._driver.serial\<close>\<close>

definition serial :: "YubiKey \<Rightarrow> int option" where
  "serial self = (if truthy (priv_serial self) then priv_serial self
                  else drv_serial (priv_driver self))"

text \<open>
  The bytes that \<open>_parse_capabilities\<close> hands to the TLV decoder: the first byte of
  the blob is a length, and at most that many of the following bytes are kept.
\<close>

definition capability_payload :: "byte list \<Rightarrow> byte list" where
  "capability_payload data = (case data of [] \<Rightarrow> [] | c # rest \<Rightarrow> take (unat c) rest)"

text \<open>The three assignments at the end of \<open>_parse_capabilities\<close>, in source order.\<close>

definition set_capa :: "(nat \<rightharpoonup> byte list) \<Rightarrow> YubiKey \<Rightarrow> exn + YubiKey" where
  "set_capa tlv self = (case tlv YK4_CAPA_TAG of None \<Rightarrow> Inr self
     | Some v \<Rightarrow> (case hex_int v of Inl e \<Rightarrow> Inl e
         | Inr n \<Rightarrow> Inr (self\<lparr>capabilities := n\<rparr>)))"

definition set_serial :: "(nat \<rightharpoonup> byte list) \<Rightarrow> YubiKey \<Rightarrow> exn + YubiKey" where
  "set_serial tlv self = (case tlv YK4_SERIAL_TAG of None \<Rightarrow> Inr self
     | Some v \<Rightarrow> (case hex_int v of Inl e \<Rightarrow> Inl e
         | Inr n \<Rightarrow> Inr (self\<lparr>priv_serial := Some n\<rparr>)))"

definition set_enabled :: "(nat \<rightharpoonup> byte list) \<Rightarrow> YubiKey \<Rightarrow> exn + YubiKey" where
  "set_enabled tlv self = (case tlv YK4_ENABLED_TAG of
       None \<Rightarrow> Inr (self\<lparr>enabled := capabilities self\<rparr>)
     | Some v \<Rightarrow> (case hex_int v of Inl e \<Rightarrow> Inl e
         | Inr n \<Rightarrow> Inr (self\<lparr>enabled := n\<rparr>)))"

definition parse_capabilities :: "YubiKey \<Rightarrow> byte list \<Rightarrow> exn + YubiKey" where
  "parse_capabilities self data =
     (if data = [] then Inr self
      else case parse_tlv_list (capability_payload data) of
          Inl e \<Rightarrow> Inl e
        | Inr tlv \<Rightarrow>
            (case set_capa tlv self of Inl e \<Rightarrow> Inl e
             | Inr s1 \<Rightarrow>
                (case set_serial tlv s1 of Inl e \<Rightarrow> Inl e
                 | Inr s2 \<Rightarrow> set_enabled tlv s2)))"

text \<open>The handle as the class attributes make it, before \<open>__init__\<close> classifies it.\<close>

definition new_handle :: "Driver \<Rightarrow> YubiKey" where
  "new_handle d = \<lparr>device_name = ''YubiKey'', capabilities = 0, enabled = 0,
                    priv_serial = None, priv_driver = d\<rparr>"

text \<open>The \<open>if\<close>/\<open>elif\<close> chain of \<open>__init__\<close> (lines 62 to 85).\<close>

definition classify :: "YubiKey \<Rightarrow> exn + YubiKey" where
  "classify self =
     (let driver = priv_driver self in
      if drv_transport driver = U2F \<and> drv_sky driver then
        Inr (self\<lparr>device_name := ''Security Key by Yubico'', capabilities := CAPABILITY_U2F\<rparr>)
      else if version_ge (version self) (4, 1, 0) then
        (case parse_capabilities (self\<lparr>device_name := ''YubiKey 4''\<rparr>)
                (drv_read_capabilities driver) of
           Inl e \<Rightarrow> Inl e
         | Inr s \<Rightarrow>
             Inr (if capabilities s = 0x07
                  then s\<lparr>device_name := ''YubiKey Edge'',
                         capabilities := CAPABILITY_OTP OR CAPABILITY_U2F\<rparr>
                  else s))
      else if version_ge (version self) (4, 0, 0) then
        Inr (self\<lparr>device_name := ''YubiKey Plus'',
                  capabilities := CAPABILITY_OTP OR CAPABILITY_U2F\<rparr>)
      else if version_ge (version self) (3, 0, 0) then
        (let s = self\<lparr>device_name := ''YubiKey NEO''\<rparr> in
         if drv_transport driver = CCID then
           Inr (s\<lparr>capabilities := drv_probe_capabilities_support driver\<rparr>)
         else if has_transport (mode s) U2F \<or> version_ge (version s) (3, 3, 0) then
           Inr (s\<lparr>capabilities := CAPABILITY_OTP OR CAPABILITY_U2F OR CAPABILITY_CCID\<rparr>)
         else
           Inr (s\<lparr>capabilities := CAPABILITY_OTP OR CAPABILITY_CCID\<rparr>))
      else
        Inr (self\<lparr>capabilities := CAPABILITY_OTP\<rparr>))"

text \<open>Lines 87 to 89: the default for \<open>enabled\<close> when it is still zero.\<close>

definition default_enabled :: "YubiKey \<Rightarrow> YubiKey" where
  "default_enabled self =
     (if enabled self = 0
      then self\<lparr>enabled := (capabilities self AND NOT sum_TRANSPORT) OR transports (mode self)\<rparr>
      else self)"

definition YubiKey_init :: "Driver option \<Rightarrow> exn + YubiKey" where
  "YubiKey_init driver = (case driver of
       None \<Rightarrow> Inl (ValueError ''No driver given!'')
     | Some d \<Rightarrow> (case classify (new_handle d) of
           Inl e \<Rightarrow> Inl e
         | Inr self \<Rightarrow> Inr (default_enabled self)))"

section \<open>Mode switching\<close>

definition has_mode :: "YubiKey \<Rightarrow> Mode \<Rightarrow> bool" where
  "has_mode self m = (capabilities self AND transports m = transports m)"

text \<open>
  \<open>set_mode\<close> (lines 135 to 148). The command goes to the driver, then the cached mode
  of the driver is overwritten.
\<close>

definition set_mode_flags :: "YubiKey \<Rightarrow> Mode \<Rightarrow> int option \<Rightarrow> int" where
  "set_mode_flags self m autoeject_time =
     (let flags = (if autoeject_time \<noteq> None then 0 OR 0x80 else 0) in
      if version_le (version self) (3, 3, 1) \<and> code m = 2 then 0x80 else flags)"

definition set_mode :: "YubiKey \<Rightarrow> Mode \<Rightarrow> int \<Rightarrow> int option \<Rightarrow> YubiKey" where
  "set_mode self m cr_timeout autoeject_time =
     (let flags = set_mode_flags self m autoeject_time;
          autoeject = (case autoeject_time of None \<Rightarrow> 0 | Some t \<Rightarrow> t);
          d = driver_set_mode (priv_driver self) (flags OR code m) cr_timeout autoeject
      in self\<lparr>priv_driver := d\<lparr>drv_mode := m\<rparr>\<rparr>)"

text \<open>
  The setter of the \<open>mode\<close> property (lines 126 to 130). The result pairs the outcome
  with the handle as the call leaves it.
\<close>

definition mode_setter :: "YubiKey \<Rightarrow> Mode \<Rightarrow> (exn + unit) \<times> YubiKey" where
  "mode_setter self m =
     (if \<not> has_mode self m then (Inl (ValueError ''Mode not supported''), self)
      else (Inr (), set_mode self m 0 None))"

section \<open>Discovery\<close>

text \<open>
  What one of \<open>open_ccid\<close>, \<open>open_otp\<close> and \<open>open_u2f\<close> does when called: it raises,
  returns no driver, or returns a driver. The environment says which, per transport.
\<close>

datatype open_result = Raises exn | NoDevice | Found Driver

type_synonym opener = "TRANSPORT \<Rightarrow> open_result"

text \<open>
  The state of the \<open>try\<close> block of \<open>open_device\<close>: the transports attempted so far,
  oldest first, and either the exception raised or the current value of \<open>dev\<close>.
\<close>

type_synonym discovery = "TRANSPORT list \<times> (exn + Driver option)"

definition attempt :: "opener \<Rightarrow> TRANSPORT \<Rightarrow> discovery \<Rightarrow> discovery" where
  "attempt env t s =
     (fst s @ [t],
      case env t of Raises e \<Rightarrow> Inl e | NoDevice \<Rightarrow> Inr None | Found d \<Rightarrow> Inr (Some d))"

definition try_ccid :: "opener \<Rightarrow> int \<Rightarrow> discovery \<Rightarrow> discovery" where
  "try_ccid env tmask s =
     (case snd s of Inl e \<Rightarrow> s
      | Inr dev \<Rightarrow> if TRANSPORT_value CCID AND tmask \<noteq> 0 then attempt env CCID s else s)"

definition try_next :: "opener \<Rightarrow> int \<Rightarrow> TRANSPORT \<Rightarrow> discovery \<Rightarrow> discovery" where
  "try_next env tmask t s =
     (case snd s of Inl e \<Rightarrow> s
      | Inr dev \<Rightarrow> if TRANSPORT_value t AND tmask \<noteq> 0 \<and> dev = None then attempt env t s else s)"

definition open_drivers :: "opener \<Rightarrow> int \<Rightarrow> discovery" where
  "open_drivers env tmask =
     try_next env tmask U2F (try_next env tmask OTP (try_ccid env tmask ([], Inr None)))"

definition open_device :: "opener \<Rightarrow> int \<Rightarrow> TRANSPORT list \<times> (exn + YubiKey option)" where
  "open_device env tmask =
     (let s = open_drivers env tmask in
      (fst s,
       case snd s of
         Inl e \<Rightarrow> Inl (FailedOpeningDeviceException e)
       | Inr None \<Rightarrow> Inr None
       | Inr (Some d) \<Rightarrow>
           (case YubiKey_init (Some d) of Inl e \<Rightarrow> Inl e | Inr h \<Rightarrow> Inr (Some h))))"

section \<open>Switching transport\<close>

text \<open>
  \<open>use_transport\<close> (lines 150 to 165). The inert driver \<open>_NULL_DRIVER\<close> is an instance
  of a class that is not among the sources, so it is a parameter. The result pairs
  the outcome with the old handle as the call leaves it.
\<close>

definition use_transport ::
  "Driver \<Rightarrow> opener \<Rightarrow> YubiKey \<Rightarrow> TRANSPORT \<Rightarrow> (exn + YubiKey) \<times> YubiKey" where
  "use_transport NULL_DRIVER env self t =
     (if transport self = t then (Inr self, self)
      else if \<not> has_transport (mode self) t
        then (Inl (ValueError ''transport not enabled!''), self)
      else
        (let my_mode = mode self;
             my_serial = serial self;
             released = self\<lparr>priv_driver := NULL_DRIVER\<rparr>
         in case snd (open_device env (TRANSPORT_value t)) of
              Inl e \<Rightarrow> (Inl e, released)
            | Inr None \<Rightarrow> (Inl AttributeError, released)
            | Inr (Some dev) \<Rightarrow>
                if truthy (serial dev) \<and> truthy my_serial \<and> serial dev \<noteq> my_serial
                  then (Inl AssertionError, released)
                else if mode dev \<noteq> my_mode then (Inl AssertionError, released)
                else (Inr dev, released)))"

section \<open>Branch conditions and example devices\<close>

text \<open>
  The condition under which \<open>__init__\<close> takes the branch of line 65: the test of
  line 62 fails and the version is at least 4.1.0.
\<close>

definition on_yk4_path :: "Driver \<Rightarrow> bool" where
  "on_yk4_path d =
     (\<not> (drv_transport d = U2F \<and> drv_sky d) \<and> version_ge (drv_version d) (4, 1, 0))"

text \<open>Concrete drivers, modes and handles, used where a statement is evaluated.\<close>

definition otp_mode :: Mode where
  "otp_mode = \<lparr>code = 0, transports = 1\<rparr>"

definition ccid_mode :: Mode where
  "ccid_mode = \<lparr>code = 1, transports = 4\<rparr>"

definition otp_ccid_mode :: Mode where
  "otp_ccid_mode = \<lparr>code = 2, transports = 5\<rparr>"

definition base_driver :: Driver where
  "base_driver = \<lparr>drv_transport = OTP, drv_version = (2, 4, 0), drv_mode = otp_mode,
     drv_serial = None, drv_sky = False, drv_read_capabilities = [],
     drv_probe_capabilities_support = 0, drv_commands = []\<rparr>"

definition legacy_handle :: YubiKey where
  "legacy_handle = (new_handle base_driver)\<lparr>capabilities := 1, enabled := 1\<rparr>"

definition neo_driver :: Driver where
  "neo_driver = base_driver\<lparr>drv_version := (3, 3, 0), drv_mode := otp_ccid_mode,
     drv_serial := Some 5\<rparr>"

definition neo_handle :: YubiKey where
  "neo_handle = (new_handle neo_driver)\<lparr>device_name := ''YubiKey NEO'',
     capabilities := 7, enabled := 5\<rparr>"

definition neo_ccid_driver :: "int \<Rightarrow> int option \<Rightarrow> Driver" where
  "neo_ccid_driver probed ser = neo_driver\<lparr>drv_transport := CCID,
     drv_probe_capabilities_support := probed, drv_serial := ser\<rparr>"

definition neo_ccid_handle :: "int \<Rightarrow> int option \<Rightarrow> int \<Rightarrow> YubiKey" where
  "neo_ccid_handle probed ser en = (new_handle (neo_ccid_driver probed ser))\<lparr>
     device_name := ''YubiKey NEO'', capabilities := probed, enabled := en\<rparr>"

definition plus_driver :: Driver where
  "plus_driver = base_driver\<lparr>drv_version := (4, 0, 0)\<rparr>"

definition plus_handle :: YubiKey where
  "plus_handle = (new_handle plus_driver)\<lparr>device_name := ''YubiKey Plus'',
     capabilities := 3, enabled := 1\<rparr>"

definition yk4_driver :: "byte list \<Rightarrow> Driver" where
  "yk4_driver blob = base_driver\<lparr>drv_version := (4, 1, 5), drv_read_capabilities := blob\<rparr>"

definition yk4_handle :: "byte list \<Rightarrow> string \<Rightarrow> int \<Rightarrow> int \<Rightarrow> YubiKey" where
  "yk4_handle blob name capa en = (new_handle (yk4_driver blob))\<lparr>device_name := name,
     capabilities := capa, enabled := en\<rparr>"

definition u2f_only_env :: opener where
  "u2f_only_env t = (case t of CCID \<Rightarrow> NoDevice | OTP \<Rightarrow> NoDevice
     | U2F \<Rightarrow> Found (base_driver\<lparr>drv_transport := U2F\<rparr>))"

definition ccid_first_env :: opener where
  "ccid_first_env t = Found base_driver"

definition empty_env :: opener where
  "empty_env t = NoDevice"

definition otp_broken_env :: opener where
  "otp_broken_env t = (case t of CCID \<Rightarrow> NoDevice | OTP \<Rightarrow> Raises (DriverError ''usb'')
     | U2F \<Rightarrow> Found base_driver)"

definition reopen_env :: "int option \<Rightarrow> opener" where
  "reopen_env ser t = (case t of CCID \<Rightarrow> Found (neo_ccid_driver 63 ser) | OTP \<Rightarrow> NoDevice
     | U2F \<Rightarrow> NoDevice)"

section \<open>Auxiliary facts\<close>

lemmas vocabulary_defs = CAPABILITY_OTP_def CAPABILITY_U2F_def CAPABILITY_CCID_def
  sum_TRANSPORT_def has_transport_def YK4_CAPA_TAG_def YK4_SERIAL_TAG_def YK4_ENABLED_TAG_def

lemmas handle_defs = YubiKey_init_def classify_def default_enabled_def new_handle_def
  parse_capabilities_def capability_payload_def parse_tlv_list_def set_capa_def
  set_serial_def set_enabled_def hex_int_def be_value_def version_def mode_def
  transport_def serial_def has_mode_def on_yk4_path_def

lemmas discovery_defs = open_device_def open_drivers_def try_ccid_def try_next_def attempt_def

lemmas example_defs = otp_mode_def ccid_mode_def otp_ccid_mode_def base_driver_def
  legacy_handle_def neo_driver_def neo_handle_def neo_ccid_driver_def neo_ccid_handle_def
  plus_driver_def plus_handle_def yk4_driver_def yk4_handle_def u2f_only_env_def
  ccid_first_env_def empty_env_def otp_broken_env_def reopen_env_def

lemma all_TRANSPORT: "(\<forall>t. P t) = (P CCID \<and> P OTP \<and> P U2F)"
  by (metis TRANSPORT.exhaust)

lemma mask_default_iff:
  "(((c::int) AND NOT t) OR m) AND c = (c AND NOT t) OR m \<longleftrightarrow> c AND m = m"
  by (auto simp: bit_eq_iff bit_simps)

lemma version_ge_4_1_imp_4_0: "version_ge v (4, 1, 0) \<Longrightarrow> version_ge v (4, 0, 0)"
  by (cases v) auto

lemma parse_capabilities_keeps:
  "parse_capabilities self data = Inr s \<Longrightarrow>
     device_name s = device_name self \<and> priv_driver s = priv_driver self"
  by (auto simp: parse_capabilities_def set_capa_def set_serial_def set_enabled_def
      split: if_splits sum.splits option.splits)

lemma parse_capabilities_empty: "parse_capabilities self [] = Inr self"
  by (simp add: parse_capabilities_def)

lemma parse_capabilities_no_enabled_tag:
  "parse_capabilities self data = Inr s \<Longrightarrow> data \<noteq> [] \<Longrightarrow>
   parse_tlv_list (capability_payload data) = Inr tlv \<Longrightarrow> tlv YK4_ENABLED_TAG = None \<Longrightarrow>
     enabled s = capabilities s"
  by (auto simp: parse_capabilities_def set_capa_def set_serial_def set_enabled_def
      split: if_splits sum.splits option.splits)

lemma classify_enabled_zero:
  "classify (new_handle d) = Inr s \<Longrightarrow> \<not> on_yk4_path d \<or> drv_read_capabilities d = [] \<Longrightarrow>
     enabled s = 0 \<and> priv_driver s = d"
  by (auto simp: classify_def new_handle_def version_def Let_def on_yk4_path_def
      parse_capabilities_empty split: if_splits sum.splits)

lemma classify_yk4:
  "on_yk4_path d \<Longrightarrow>
   classify (new_handle d) =
     (case parse_capabilities ((new_handle d)\<lparr>device_name := ''YubiKey 4''\<rparr>)
             (drv_read_capabilities d) of
        Inl e \<Rightarrow> Inl e
      | Inr s \<Rightarrow> Inr (if capabilities s = 0x07
                       then s\<lparr>device_name := ''YubiKey Edge'',
                              capabilities := CAPABILITY_OTP OR CAPABILITY_U2F\<rparr>
                       else s))"
  by (auto simp: classify_def on_yk4_path_def version_def new_handle_def Let_def)

lemma default_enabled_zero_iff:
  "enabled s = 0 \<Longrightarrow>
     (enabled (default_enabled s) AND capabilities (default_enabled s) = enabled (default_enabled s))
       = has_mode (default_enabled s) (mode (default_enabled s))"
  by (simp add: default_enabled_def has_mode_def mode_def mask_default_iff)

lemma parse_capabilities_decoded:
  "parse_capabilities self data = Inr s \<Longrightarrow> data \<noteq> [] \<Longrightarrow>
     \<exists>tlv. parse_tlv_list (capability_payload data) = Inr tlv"
  by (auto simp: parse_capabilities_def split: if_splits sum.splits)

lemma parse_capabilities_enabled_tag:
  "parse_capabilities self data = Inr s \<Longrightarrow> data \<noteq> [] \<Longrightarrow>
   parse_tlv_list (capability_payload data) = Inr tlv \<Longrightarrow> tlv YK4_ENABLED_TAG = Some v \<Longrightarrow>
     enabled s = be_value v"
  by (auto simp: parse_capabilities_def set_capa_def set_serial_def set_enabled_def hex_int_def
      split: if_splits sum.splits option.splits)

text \<open>The example handles are what the constructor builds from the example drivers.\<close>

lemma init_base_driver: "YubiKey_init (Some base_driver) = Inr legacy_handle"
  by (simp add: handle_defs vocabulary_defs example_defs)

lemma init_neo_driver: "YubiKey_init (Some neo_driver) = Inr neo_handle"
  by (simp add: handle_defs vocabulary_defs example_defs)

lemma init_plus_driver: "YubiKey_init (Some plus_driver) = Inr plus_handle"
  by (simp add: handle_defs vocabulary_defs example_defs)

lemma init_neo_ccid_12:
  "YubiKey_init (Some (neo_ccid_driver 12 (Some 5))) = Inr (neo_ccid_handle 12 (Some 5) 13)"
  by (simp add: handle_defs vocabulary_defs example_defs)

lemma init_neo_ccid_63:
  "YubiKey_init (Some (neo_ccid_driver 63 ser)) = Inr (neo_ccid_handle 63 ser 61)"
  by (simp add: handle_defs vocabulary_defs example_defs)

lemma init_yk4_edge:
  "YubiKey_init (Some (yk4_driver [3, 1, 1, 7])) =
     Inr (yk4_handle [3, 1, 1, 7] ''YubiKey Edge'' 3 7)"
  by (simp add: handle_defs vocabulary_defs example_defs)

lemma init_yk4_full:
  "YubiKey_init (Some (yk4_driver [3, 1, 1, 63])) =
     Inr (yk4_handle [3, 1, 1, 63] ''YubiKey 4'' 63 63)"
  by (simp add: handle_defs vocabulary_defs example_defs)

lemma init_yk4_tagged:
  "YubiKey_init (Some (yk4_driver [6, 1, 1, 1, 3, 1, 3])) =
     Inr (yk4_handle [6, 1, 1, 1, 3, 1, 3] ''YubiKey 4'' 1 3)"
  by (simp add: handle_defs vocabulary_defs example_defs)

lemma init_yk4_zero:
  "YubiKey_init (Some (yk4_driver [6, 1, 1, 63, 3, 1, 0])) =
     Inr (yk4_handle [6, 1, 1, 63, 3, 1, 0] ''YubiKey 4'' 63 57)"
  by (simp add: handle_defs vocabulary_defs example_defs)

section \<open>Mode switching: claims C2 and C3\<close>

text \<open>
  C2, as amended. In \<open>set_mode\<close> with no \<open>autoeject_time\<close>: on firmware at most 3.3.1
  and a target mode with code 2, the variable \<open>flags\<close> is forced to 0x80 and the byte
  issued to the driver is \<open>flags | mode.code\<close>, that is 0x82 (the source comment says
  "should always set 82 instead of 2"); on firmware 4.0.0 \<open>flags\<close> is 0 and the byte
  issued is the mode code itself. The eject time issued is 0 in both cases.
\<close>

theorem set_mode_flag_byte:
  "(version_le (version self) (3, 3, 1) \<and> code m = 2 \<longrightarrow>
      set_mode_flags self m None = 0x80 \<and>
      drv_commands (priv_driver (set_mode self m cr_timeout None)) =
        drv_commands (priv_driver self) @ [(0x82, cr_timeout, 0)]) \<and>
   (version self = (4, 0, 0) \<longrightarrow>
      set_mode_flags self m None = 0 \<and>
      drv_commands (priv_driver (set_mode self m cr_timeout None)) =
        drv_commands (priv_driver self) @ [(code m, cr_timeout, 0)])"
  by (simp add: set_mode_def set_mode_flags_def driver_set_mode_def)

text \<open>
  The statement at a NEO with firmware 3.3.0 and at a YubiKey Plus with firmware
  4.0.0, both asked for the mode with code 2.
\<close>

theorem set_mode_flag_byte_witness:
  "version_le (version neo_handle) (3, 3, 1) \<and> code otp_ccid_mode = 2 \<and>
   version plus_handle = (4, 0, 0) \<and>
   drv_commands (priv_driver (set_mode neo_handle otp_ccid_mode 0 None)) = [(0x82, 0, 0)] \<and>
   drv_commands (priv_driver (set_mode plus_handle otp_ccid_mode 0 None)) = [(2, 0, 0)]"
proof -
  have a: "version_le (version neo_handle) (3, 3, 1) \<and> code otp_ccid_mode = 2"
    by (simp add: version_def new_handle_def example_defs)
  have b: "version plus_handle = (4, 0, 0)"
    by (simp add: version_def new_handle_def example_defs)
  have c: "drv_commands (priv_driver neo_handle) = []"
    "drv_commands (priv_driver plus_handle) = []"
    by (simp_all add: new_handle_def example_defs)
  show ?thesis
    using a b c set_mode_flag_byte [of neo_handle otp_ccid_mode 0]
      set_mode_flag_byte [of plus_handle otp_ccid_mode 0]
    by simp
qed

text \<open>
  C2 as stated fails: for the NEO with firmware 3.3.0 that the constructor builds
  from \<open>neo_driver\<close>, the byte issued for mode code 2 is 0x82, not 0x80.
\<close>

theorem set_mode_quirk_counterexample:
  "YubiKey_init (Some neo_driver) = Inr neo_handle \<and>
   version_le (version neo_handle) (3, 3, 1) \<and> code otp_ccid_mode = 2 \<and>
   map fst (drv_commands (priv_driver (set_mode neo_handle otp_ccid_mode 0 None))) = [0x82] \<and>
   map fst (drv_commands (priv_driver (set_mode neo_handle otp_ccid_mode 0 None))) \<noteq> [0x80]"
  by (simp add: init_neo_driver)
     (simp add: set_mode_def set_mode_flags_def driver_set_mode_def version_def
        new_handle_def example_defs)

text \<open>
  C3, as amended. The check of \<open>has_mode\<close> is made by the setter of the \<open>mode\<close>
  property, not by \<open>set_mode\<close>: assigning a mode whose transports are not all among
  the capabilities fails with the unsupported-mode error, and the handle is as it
  was, so no command has been issued and the cached mode of the driver is unchanged.
\<close>

theorem mode_setter_unsupported:
  "\<not> has_mode self m \<Longrightarrow>
     mode_setter self m = (Inl (ValueError ''Mode not supported''), self) \<and>
     drv_commands (priv_driver (snd (mode_setter self m))) = drv_commands (priv_driver self) \<and>
     mode (snd (mode_setter self m)) = mode self"
  by (simp add: mode_setter_def)

text \<open>The statement at a legacy device, which has only OTP, asked for the CCID mode.\<close>

theorem mode_setter_unsupported_witness:
  "\<not> has_mode legacy_handle ccid_mode \<and>
   mode_setter legacy_handle ccid_mode = (Inl (ValueError ''Mode not supported''), legacy_handle)"
proof -
  have a: "\<not> has_mode legacy_handle ccid_mode"
    by (simp add: has_mode_def new_handle_def example_defs)
  show ?thesis
    using a mode_setter_unsupported [OF a] by simp
qed

text \<open>
  C3 as stated fails: \<open>set_mode\<close> called on the same legacy device with the CCID mode
  makes no check, issues the command and overwrites the cached mode.
\<close>

theorem set_mode_unchecked_counterexample:
  "YubiKey_init (Some base_driver) = Inr legacy_handle \<and>
   \<not> has_mode legacy_handle ccid_mode \<and>
   drv_commands (priv_driver legacy_handle) = [] \<and>
   drv_commands (priv_driver (set_mode legacy_handle ccid_mode 0 None)) = [(1, 0, 0)] \<and>
   mode legacy_handle = otp_mode \<and>
   mode (set_mode legacy_handle ccid_mode 0 None) = ccid_mode \<and>
   ccid_mode \<noteq> otp_mode"
  by (simp add: init_base_driver)
     (simp add: set_mode_def set_mode_flags_def driver_set_mode_def version_def mode_def
        has_mode_def new_handle_def example_defs)

section \<open>Classification: claims C7 and C8\<close>

text \<open>
  C7. On the branch for firmware at least 4.1.0, when \<open>_parse_capabilities\<close> returns
  with the capability mask \<open>capabilities s\<close>, the constructor succeeds; if that mask
  is exactly 0x07 the handle is named YubiKey Edge and its capabilities are exactly
  OTP and U2F, and if it is anything else the name stays YubiKey 4 and the
  capabilities stay the decoded mask.
\<close>

theorem edge_reclassification:
  assumes "on_yk4_path d"
    and "parse_capabilities ((new_handle d)\<lparr>device_name := ''YubiKey 4''\<rparr>)
           (drv_read_capabilities d) = Inr s"
  shows "\<exists>h. YubiKey_init (Some d) = Inr h \<and>
           (capabilities s = 0x07 \<longrightarrow>
              device_name h = ''YubiKey Edge'' \<and>
              capabilities h = CAPABILITY_OTP OR CAPABILITY_U2F) \<and>
           (capabilities s \<noteq> 0x07 \<longrightarrow>
              device_name h = ''YubiKey 4'' \<and> capabilities h = capabilities s)"
proof -
  have nm: "device_name s = ''YubiKey 4''"
    using parse_capabilities_keeps [OF assms(2)] by simp
  show ?thesis
    using nm by (simp add: YubiKey_init_def classify_yk4 [OF assms(1)] assms(2) default_enabled_def)
qed

text \<open>
  The statement at firmware 4.1.5, once with a blob whose tag 0x01 holds 0x07 and
  once with a blob whose tag 0x01 holds 0x3f.
\<close>

theorem edge_reclassification_witness:
  "on_yk4_path (yk4_driver [3, 1, 1, 7]) \<and>
   parse_capabilities ((new_handle (yk4_driver [3, 1, 1, 7]))\<lparr>device_name := ''YubiKey 4''\<rparr>)
     (drv_read_capabilities (yk4_driver [3, 1, 1, 7])) =
       Inr (yk4_handle [3, 1, 1, 7] ''YubiKey 4'' 7 7) \<and>
   (\<exists>h. YubiKey_init (Some (yk4_driver [3, 1, 1, 7])) = Inr h \<and>
        device_name h = ''YubiKey Edge'' \<and> capabilities h = 3) \<and>
   on_yk4_path (yk4_driver [3, 1, 1, 63]) \<and>
   parse_capabilities ((new_handle (yk4_driver [3, 1, 1, 63]))\<lparr>device_name := ''YubiKey 4''\<rparr>)
     (drv_read_capabilities (yk4_driver [3, 1, 1, 63])) =
       Inr (yk4_handle [3, 1, 1, 63] ''YubiKey 4'' 63 63) \<and>
   (\<exists>h. YubiKey_init (Some (yk4_driver [3, 1, 1, 63])) = Inr h \<and>
        device_name h = ''YubiKey 4'' \<and> capabilities h = 63)"
proof -
  have a: "on_yk4_path (yk4_driver [3, 1, 1, 7])" "on_yk4_path (yk4_driver [3, 1, 1, 63])"
    by (simp_all add: on_yk4_path_def example_defs)
  have b: "parse_capabilities
      ((new_handle (yk4_driver [3, 1, 1, 7]))\<lparr>device_name := ''YubiKey 4''\<rparr>)
      (drv_read_capabilities (yk4_driver [3, 1, 1, 7])) =
        Inr (yk4_handle [3, 1, 1, 7] ''YubiKey 4'' 7 7)"
    by (simp add: handle_defs vocabulary_defs example_defs)
  have c: "parse_capabilities
      ((new_handle (yk4_driver [3, 1, 1, 63]))\<lparr>device_name := ''YubiKey 4''\<rparr>)
      (drv_read_capabilities (yk4_driver [3, 1, 1, 63])) =
        Inr (yk4_handle [3, 1, 1, 63] ''YubiKey 4'' 63 63)"
    by (simp add: handle_defs vocabulary_defs example_defs)
  have d: "capabilities (yk4_handle [3, 1, 1, 7] ''YubiKey 4'' 7 7) = 7"
    "capabilities (yk4_handle [3, 1, 1, 63] ''YubiKey 4'' 63 63) = 63"
    by (simp_all add: yk4_handle_def)
  show ?thesis
    using a b c edge_reclassification [OF a(1) b] edge_reclassification [OF a(2) c]
    by (simp add: d vocabulary_defs)
qed

text \<open>
  C8. A device that is not taken for a Security Key and whose firmware is at least
  3.0.0 and below 4.0.0 is constructed with these capabilities: over CCID, exactly
  what \<open>probe_capabilities_support()\<close> returns; otherwise OTP, U2F and CCID when the
  current mode has U2F or the firmware is at least 3.3.0; otherwise OTP and CCID.
\<close>

theorem neo_capabilities:
  assumes "\<not> (drv_transport d = U2F \<and> drv_sky d)"
    and "version_ge (drv_version d) (3, 0, 0)"
    and "\<not> version_ge (drv_version d) (4, 0, 0)"
  shows "\<exists>h. YubiKey_init (Some d) = Inr h \<and>
           device_name h = ''YubiKey NEO'' \<and>
           capabilities h =
             (if drv_transport d = CCID then drv_probe_capabilities_support d
              else if has_transport (drv_mode d) U2F \<or> version_ge (drv_version d) (3, 3, 0)
                then CAPABILITY_OTP OR CAPABILITY_U2F OR CAPABILITY_CCID
              else CAPABILITY_OTP OR CAPABILITY_CCID)"
proof -
  have "\<not> version_ge (drv_version d) (4, 1, 0)"
    using assms(3) version_ge_4_1_imp_4_0 by blast
  then show ?thesis
    using assms
    by (auto simp: YubiKey_init_def classify_def version_def mode_def new_handle_def
        default_enabled_def Let_def)
qed

text \<open>
  The statement at a NEO with firmware 3.3.0 over CCID whose probe returns 12, at
  the same NEO over OTP, and at a NEO with firmware 3.2.0 over OTP in a mode
  without U2F.
\<close>

theorem neo_capabilities_witness:
  "\<not> (drv_transport (neo_ccid_driver 12 (Some 5)) = U2F \<and> drv_sky (neo_ccid_driver 12 (Some 5))) \<and>
   version_ge (drv_version (neo_ccid_driver 12 (Some 5))) (3, 0, 0) \<and>
   \<not> version_ge (drv_version (neo_ccid_driver 12 (Some 5))) (4, 0, 0) \<and>
   (\<exists>h. YubiKey_init (Some (neo_ccid_driver 12 (Some 5))) = Inr h \<and> capabilities h = 12) \<and>
   (\<exists>h. YubiKey_init (Some neo_driver) = Inr h \<and> capabilities h = 7) \<and>
   (\<exists>h. YubiKey_init (Some (neo_driver\<lparr>drv_version := (3, 2, 0)\<rparr>)) = Inr h \<and>
        capabilities h = 5)"
proof -
  have a: "\<not> (drv_transport (neo_ccid_driver 12 (Some 5)) = U2F \<and>
              drv_sky (neo_ccid_driver 12 (Some 5)))"
    "version_ge (drv_version (neo_ccid_driver 12 (Some 5))) (3, 0, 0)"
    "\<not> version_ge (drv_version (neo_ccid_driver 12 (Some 5))) (4, 0, 0)"
    by (simp_all add: example_defs)
  have b: "\<not> (drv_transport neo_driver = U2F \<and> drv_sky neo_driver)"
    "version_ge (drv_version neo_driver) (3, 0, 0)"
    "\<not> version_ge (drv_version neo_driver) (4, 0, 0)"
    by (simp_all add: example_defs)
  have c: "\<not> (drv_transport (neo_driver\<lparr>drv_version := (3, 2, 0)\<rparr>) = U2F \<and>
              drv_sky (neo_driver\<lparr>drv_version := (3, 2, 0)\<rparr>))"
    "version_ge (drv_version (neo_driver\<lparr>drv_version := (3, 2, 0)\<rparr>)) (3, 0, 0)"
    "\<not> version_ge (drv_version (neo_driver\<lparr>drv_version := (3, 2, 0)\<rparr>)) (4, 0, 0)"
    by (simp_all add: example_defs)
  have d: "drv_transport (neo_ccid_driver 12 (Some 5)) = CCID"
    "drv_probe_capabilities_support (neo_ccid_driver 12 (Some 5)) = 12"
    "drv_transport neo_driver = OTP" "drv_version neo_driver = (3, 3, 0)"
    "drv_transport (neo_driver\<lparr>drv_version := (3, 2, 0)\<rparr>) = OTP"
    "drv_version (neo_driver\<lparr>drv_version := (3, 2, 0)\<rparr>) = (3, 2, 0)"
    "\<not> has_transport (drv_mode neo_driver) U2F"
    by (simp_all add: example_defs vocabulary_defs)
  have e: "CAPABILITY_OTP OR CAPABILITY_U2F OR CAPABILITY_CCID = 7"
    "CAPABILITY_OTP OR CAPABILITY_CCID = 5"
    by (simp_all add: vocabulary_defs)
  show ?thesis
    using a neo_capabilities [OF a] neo_capabilities [OF b] neo_capabilities [OF c]
    by (auto simp: d e)
qed

section \<open>The capability blob: claim C10\<close>

text \<open>
  C10. \<open>_parse_capabilities\<close> leaves the handle unchanged, without a fault, on an
  empty blob. On a non-empty blob the first byte \<open>c\<close> is the length of the payload:
  the first \<open>c\<close> of the bytes that follow (all of them when there are fewer) are what
  the TLV decoder is given. A fault of the decoder on those bytes is the result.
  Otherwise capabilities, serial and enabled are set from the values of tags 0x01,
  0x02 and 0x03 among the decoded records, read as big-endian numbers: an empty value
  of one of them is a ValueError, an absent tag 0x01 or 0x02 leaves capabilities or
  serial as it was, and an absent tag 0x03 makes enabled equal to the capabilities.
  Bytes beyond the declared length affect nothing: the result is the same when the
  blob is cut after the payload.
\<close>

theorem capability_blob_framing:
  "parse_capabilities self [] = Inr self \<and>
   parse_capabilities self (c # rest) = parse_capabilities self (c # take (unat c) rest) \<and>
   (length payload = unat c \<longrightarrow>
      parse_capabilities self (c # payload @ extra) = parse_capabilities self (c # payload)) \<and>
   (\<forall>e. parse_tlv_list (take (unat c) rest) = Inl e \<longrightarrow>
      parse_capabilities self (c # rest) = Inl e) \<and>
   (\<forall>tlv. parse_tlv_list (take (unat c) rest) = Inr tlv \<longrightarrow>
      parse_capabilities self (c # rest) =
        (if tlv YK4_CAPA_TAG = Some [] \<or> tlv YK4_SERIAL_TAG = Some [] \<or>
            tlv YK4_ENABLED_TAG = Some []
         then Inl (ValueError ''invalid literal for int() with base 16'')
         else Inr (self\<lparr>
           capabilities :=
             (case tlv YK4_CAPA_TAG of None \<Rightarrow> capabilities self | Some v \<Rightarrow> be_value v),
           priv_serial :=
             (case tlv YK4_SERIAL_TAG of None \<Rightarrow> priv_serial self
              | Some v \<Rightarrow> Some (be_value v)),
           enabled :=
             (case tlv YK4_ENABLED_TAG of
                None \<Rightarrow> (case tlv YK4_CAPA_TAG of None \<Rightarrow> capabilities self
                          | Some v \<Rightarrow> be_value v)
              | Some v \<Rightarrow> be_value v)\<rparr>)))"
  by (auto simp: parse_capabilities_def capability_payload_def set_capa_def set_serial_def
      set_enabled_def hex_int_def split: option.splits)

text \<open>
  The statement at the empty blob; at a blob that declares three bytes and carries
  two more; at a blob that declares nine bytes, holding tags 0x01, 0x02 and 0x03, and
  carries a further well-formed record for tag 0x01 that is not decoded; and at a
  blob whose declared length cuts a record short, which is a fault of the decoder.
\<close>

theorem capability_blob_framing_witness:
  "parse_capabilities (new_handle base_driver) [] = Inr (new_handle base_driver) \<and>
   length [1, 1, 63 :: byte] = unat (3 :: byte) \<and>
   parse_capabilities (new_handle base_driver) (3 # [1, 1, 63] @ [9, 9]) =
     parse_capabilities (new_handle base_driver) (3 # [1, 1, 63]) \<and>
   parse_tlv_list (take (unat (3 :: byte)) [1, 1, 63, 9, 9]) = Inr [1 \<mapsto> [63]] \<and>
   parse_capabilities (new_handle base_driver) (3 # [1, 1, 63, 9, 9]) =
     Inr ((new_handle base_driver)\<lparr>capabilities := 63, enabled := 63\<rparr>) \<and>
   parse_tlv_list (take (unat (9 :: byte)) [1, 1, 7, 2, 1, 42, 3, 1, 5, 1, 1, 63]) =
     Inr [1 \<mapsto> [7], 2 \<mapsto> [42], 3 \<mapsto> [5]] \<and>
   parse_capabilities (new_handle base_driver) (9 # [1, 1, 7, 2, 1, 42, 3, 1, 5, 1, 1, 63]) =
     Inr ((new_handle base_driver)\<lparr>capabilities := 7, priv_serial := Some 42, enabled := 5\<rparr>) \<and>
   parse_tlv_list (take (unat (2 :: byte)) [1, 1, 63]) = Inl DecodeFault \<and>
   parse_capabilities (new_handle base_driver) (2 # [1, 1, 63]) = Inl DecodeFault"
proof -
  have a: "length [1, 1, 63 :: byte] = unat (3 :: byte)" by simp
  have b: "parse_tlv_list (take (unat (3 :: byte)) [1, 1, 63, 9, 9]) = Inr [1 \<mapsto> [63]]"
    by (simp add: parse_tlv_list_def)
  have c: "parse_tlv_list (take (unat (9 :: byte)) [1, 1, 7, 2, 1, 42, 3, 1, 5, 1, 1, 63]) =
     Inr [1 \<mapsto> [7], 2 \<mapsto> [42], 3 \<mapsto> [5]]"
    by (simp add: parse_tlv_list_def)
  have d: "parse_tlv_list (take (unat (2 :: byte)) [1, 1, 63]) = Inl DecodeFault"
    by (simp add: parse_tlv_list_def)
  have e: "parse_capabilities (new_handle base_driver) [] = Inr (new_handle base_driver)"
    using capability_blob_framing [of "new_handle base_driver" 3 "[]" "[]" "[]", THEN conjunct1] .
  have f: "parse_capabilities (new_handle base_driver) (3 # [1, 1, 63] @ [9, 9]) =
     parse_capabilities (new_handle base_driver) (3 # [1, 1, 63])"
    using capability_blob_framing [of "new_handle base_driver" 3 "[]" "[1, 1, 63]" "[9, 9]",
        THEN conjunct2, THEN conjunct2, THEN conjunct1, THEN mp, OF a] .
  have g: "parse_capabilities (new_handle base_driver) (3 # [1, 1, 63, 9, 9]) =
     Inr ((new_handle base_driver)\<lparr>capabilities := 63, enabled := 63\<rparr>)"
    using capability_blob_framing [of "new_handle base_driver" 3 "[1, 1, 63, 9, 9]" "[]" "[]",
        THEN conjunct2, THEN conjunct2, THEN conjunct2, THEN conjunct2, THEN spec, THEN mp, OF b]
    by (simp add: vocabulary_defs be_value_def new_handle_def)
  have h: "parse_capabilities (new_handle base_driver)
       (9 # [1, 1, 7, 2, 1, 42, 3, 1, 5, 1, 1, 63]) =
     Inr ((new_handle base_driver)\<lparr>capabilities := 7, priv_serial := Some 42, enabled := 5\<rparr>)"
    using capability_blob_framing [of "new_handle base_driver" 9 "[1, 1, 7, 2, 1, 42, 3, 1, 5, 1, 1, 63]" "[]" "[]",
        THEN conjunct2, THEN conjunct2, THEN conjunct2, THEN conjunct2, THEN spec, THEN mp, OF c]
    by (simp add: vocabulary_defs be_value_def new_handle_def)
  have i: "parse_capabilities (new_handle base_driver) (2 # [1, 1, 63]) = Inl DecodeFault"
    using capability_blob_framing [of "new_handle base_driver" 2 "[1, 1, 63]" "[]" "[]",
        THEN conjunct2, THEN conjunct2, THEN conjunct2, THEN conjunct1, THEN spec, THEN mp, OF d] .
  show ?thesis
    using a b c d e f g h i by blast
qed

section \<open>Discovery: claims C5 and C6\<close>

text \<open>
  C5. For every mask, the transports that \<open>open_device\<close> attempts form a subsequence
  of CCID, OTP, U2F in that order; each attempted transport has its bit in the mask;
  a transport that yields a driver is the last one attempted; a transport of the
  mask is left out only when an attempted one raised or yielded a driver; and when
  every attempted transport yields no driver the result is none, not an error.
\<close>

theorem open_device_priority:
  "subseq (fst (open_device env tmask)) [CCID, OTP, U2F] \<and>
   (\<forall>t \<in> set (fst (open_device env tmask)). TRANSPORT_value t AND tmask \<noteq> 0) \<and>
   (\<forall>t \<in> set (fst (open_device env tmask)).
      (\<exists>d. env t = Found d) \<longrightarrow> t = last (fst (open_device env tmask))) \<and>
   (\<forall>t. TRANSPORT_value t AND tmask \<noteq> 0 \<and> t \<notin> set (fst (open_device env tmask)) \<longrightarrow>
      (\<exists>u \<in> set (fst (open_device env tmask)). env u \<noteq> NoDevice)) \<and>
   ((\<forall>t \<in> set (fst (open_device env tmask)). env t = NoDevice) \<longrightarrow>
      snd (open_device env tmask) = Inr None)"
  unfolding all_TRANSPORT
  by (cases "env CCID"; cases "env OTP"; cases "env U2F")
     (simp_all add: discovery_defs Let_def)

text \<open>
  The statement at three environments: with the mask OTP | U2F where only U2F has a
  device, CCID is never attempted and U2F is attempted last; with every transport
  empty all three are attempted and the result is none; with a device on every
  transport only CCID is attempted.
\<close>

theorem open_device_priority_witness:
  "fst (open_device u2f_only_env 3) = [OTP, U2F] \<and>
   CCID \<notin> set (fst (open_device u2f_only_env 3)) \<and>
   TRANSPORT_value OTP AND 3 \<noteq> 0 \<and> TRANSPORT_value U2F AND 3 \<noteq> 0 \<and>
   u2f_only_env U2F = Found (base_driver\<lparr>drv_transport := U2F\<rparr>) \<and>
   last (fst (open_device u2f_only_env 3)) = U2F \<and>
   fst (open_device empty_env 7) = [CCID, OTP, U2F] \<and>
   snd (open_device empty_env 7) = Inr None \<and>
   fst (open_device ccid_first_env 7) = [CCID] \<and>
   TRANSPORT_value OTP AND 7 \<noteq> 0 \<and> ccid_first_env CCID \<noteq> NoDevice"
proof -
  have a: "fst (open_device u2f_only_env 3) = [OTP, U2F]"
    "fst (open_device empty_env 7) = [CCID, OTP, U2F]"
    "fst (open_device ccid_first_env 7) = [CCID]"
    by (simp_all add: discovery_defs vocabulary_defs u2f_only_env_def empty_env_def
        ccid_first_env_def)
  have b: "TRANSPORT_value OTP AND 3 \<noteq> 0" "TRANSPORT_value U2F AND 3 \<noteq> 0"
    "TRANSPORT_value OTP AND 7 \<noteq> 0"
    by (simp_all add: vocabulary_defs)
  have c: "u2f_only_env U2F = Found (base_driver\<lparr>drv_transport := U2F\<rparr>)"
    "ccid_first_env CCID \<noteq> NoDevice" "\<forall>t. empty_env t = NoDevice"
    by (simp_all add: u2f_only_env_def ccid_first_env_def empty_env_def)
  have d: "snd (open_device empty_env 7) = Inr None"
    using open_device_priority [of empty_env 7] c(3) by blast
  show ?thesis
    using a b c(1,2) d by simp
qed

text \<open>
  C6. If an attempted transport raises, \<open>open_device\<close> raises the one wrapped error
  that carries that exception, and that transport is the last one attempted; every
  transport attempted before the last returned no device, so the next transport is
  tried only after a failure to find a device, never after an exception.
\<close>

theorem open_device_fail_fast:
  "(\<forall>t \<in> set (fst (open_device env tmask)). \<forall>e. env t = Raises e \<longrightarrow>
      snd (open_device env tmask) = Inl (FailedOpeningDeviceException e) \<and>
      t = last (fst (open_device env tmask))) \<and>
   (\<forall>t \<in> set (butlast (fst (open_device env tmask))). env t = NoDevice)"
  by (cases "env CCID"; cases "env OTP"; cases "env U2F")
     (simp_all add: discovery_defs Let_def)

text \<open>
  The statement at an environment where CCID has no device, OTP raises and U2F has
  a device: OTP is the last transport attempted and its exception comes back wrapped.
\<close>

theorem open_device_fail_fast_witness:
  "fst (open_device otp_broken_env 7) = [CCID, OTP] \<and>
   otp_broken_env OTP = Raises (DriverError ''usb'') \<and>
   otp_broken_env CCID = NoDevice \<and>
   snd (open_device otp_broken_env 7) =
     Inl (FailedOpeningDeviceException (DriverError ''usb''))"
proof -
  have a: "fst (open_device otp_broken_env 7) = [CCID, OTP]"
    by (simp add: discovery_defs vocabulary_defs otp_broken_env_def)
  have b: "otp_broken_env OTP = Raises (DriverError ''usb'')" "otp_broken_env CCID = NoDevice"
    by (simp_all add: otp_broken_env_def)
  have c: "OTP \<in> set (fst (open_device otp_broken_env 7))"
    by (simp add: a)
  have d: "snd (open_device otp_broken_env 7) =
     Inl (FailedOpeningDeviceException (DriverError ''usb''))"
    using open_device_fail_fast [of otp_broken_env 7] b(1) c by blast
  show ?thesis
    using a b d by simp
qed

section \<open>Switching transport: claim C4\<close>

text \<open>
  C4. When \<open>use_transport\<close> is called with a transport other than the current one,
  the current mode has that transport, and discovery returns a device: the call
  fails with an assertion error if both serials are present (in the sense of the
  source's test, which takes \<open>None\<close> and \<open>0\<close> for absent) and differ, or if the mode
  of the new device differs from the captured mode; otherwise it returns the new
  handle.
\<close>

theorem use_transport_consistency:
  assumes "transport self \<noteq> t"
    and "has_transport (mode self) t"
    and "snd (open_device env (TRANSPORT_value t)) = Inr (Some dev)"
  shows "fst (use_transport NULL_DRIVER env self t) =
           (if (truthy (serial dev) \<and> truthy (serial self) \<and> serial dev \<noteq> serial self)
               \<or> mode dev \<noteq> mode self
            then Inl AssertionError else Inr dev)"
  using assms by (simp add: use_transport_def Let_def)

text \<open>
  The statement at a NEO on OTP in the mode OTP+CCID with serial 5, switched to
  CCID: a reopened device with serial 5 is returned, one with serial 6 is refused.
\<close>

theorem use_transport_consistency_witness:
  "transport neo_handle \<noteq> CCID \<and> has_transport (mode neo_handle) CCID \<and>
   snd (open_device (reopen_env (Some 5)) (TRANSPORT_value CCID)) =
     Inr (Some (neo_ccid_handle 63 (Some 5) 61)) \<and>
   fst (use_transport base_driver (reopen_env (Some 5)) neo_handle CCID) =
     Inr (neo_ccid_handle 63 (Some 5) 61) \<and>
   snd (open_device (reopen_env (Some 6)) (TRANSPORT_value CCID)) =
     Inr (Some (neo_ccid_handle 63 (Some 6) 61)) \<and>
   fst (use_transport base_driver (reopen_env (Some 6)) neo_handle CCID) = Inl AssertionError"
proof -
  have a: "transport neo_handle \<noteq> CCID" "has_transport (mode neo_handle) CCID"
    by (simp_all add: transport_def mode_def has_transport_def new_handle_def example_defs
        vocabulary_defs)
  have b: "snd (open_device (reopen_env ser) (TRANSPORT_value CCID)) =
      Inr (Some (neo_ccid_handle 63 ser 61))" for ser
    by (simp add: discovery_defs reopen_env_def init_neo_ccid_63 vocabulary_defs)
  have c: "serial neo_handle = Some 5" "mode neo_handle = otp_ccid_mode"
    "serial (neo_ccid_handle 63 ser 61) = ser" "mode (neo_ccid_handle 63 ser 61) = otp_ccid_mode"
    for ser
    by (simp_all add: serial_def mode_def new_handle_def neo_handle_def neo_driver_def
        neo_ccid_handle_def neo_ccid_driver_def base_driver_def)
  show ?thesis
    using a b [of "Some 5"] b [of "Some 6"]
      use_transport_consistency [OF a b [of "Some 5"], of base_driver]
      use_transport_consistency [OF a b [of "Some 6"], of base_driver]
    by (simp add: c)
qed

section \<open>The enabled mask: claims C9 and C1\<close>

text \<open>
  C9, as amended. For every constructed handle on the Security Key, Plus, NEO and
  legacy branches, and on the branch for firmware at least 4.1.0 when
  \<open>read_capabilities()\<close> returns an empty blob, \<open>enabled\<close> is the capabilities with
  the transport bits cleared, OR-ed with the transports of the reported mode. On the
  branch for firmware at least 4.1.0 with a non-empty blob that has no tag 0x03,
  \<open>enabled\<close> is the decoded capability mask whenever that mask is not zero (the
  default of lines 87 to 89 does not run), and the same formula when it is zero.
\<close>

theorem default_enabled_formula:
  assumes "YubiKey_init (Some d) = Inr h"
  shows "(\<not> on_yk4_path d \<or> drv_read_capabilities d = [] \<longrightarrow>
            enabled h = (capabilities h AND NOT sum_TRANSPORT) OR transports (drv_mode d)) \<and>
         (on_yk4_path d \<and> drv_read_capabilities d \<noteq> [] \<and>
          parse_tlv_list (capability_payload (drv_read_capabilities d)) = Inr tlv \<and>
          tlv YK4_ENABLED_TAG = None \<and>
          parse_capabilities ((new_handle d)\<lparr>device_name := ''YubiKey 4''\<rparr>)
            (drv_read_capabilities d) = Inr s \<longrightarrow>
            enabled h = (if capabilities s \<noteq> 0 then capabilities s
                         else (capabilities h AND NOT sum_TRANSPORT) OR transports (drv_mode d)))"
proof (intro conjI impI)
  assume a: "\<not> on_yk4_path d \<or> drv_read_capabilities d = []"
  from assms obtain s0 where c: "classify (new_handle d) = Inr s0" and h: "h = default_enabled s0"
    by (auto simp: YubiKey_init_def split: sum.splits)
  from classify_enabled_zero [OF c a] h
  show "enabled h = (capabilities h AND NOT sum_TRANSPORT) OR transports (drv_mode d)"
    by (simp add: default_enabled_def mode_def)
next
  assume a: "on_yk4_path d \<and> drv_read_capabilities d \<noteq> [] \<and>
          parse_tlv_list (capability_payload (drv_read_capabilities d)) = Inr tlv \<and>
          tlv YK4_ENABLED_TAG = None \<and>
          parse_capabilities ((new_handle d)\<lparr>device_name := ''YubiKey 4''\<rparr>)
            (drv_read_capabilities d) = Inr s"
  then have p: "parse_capabilities ((new_handle d)\<lparr>device_name := ''YubiKey 4''\<rparr>)
            (drv_read_capabilities d) = Inr s" by simp
  have e: "enabled s = capabilities s"
    using parse_capabilities_no_enabled_tag [OF p] a by blast
  have k: "priv_driver s = d"
    using parse_capabilities_keeps [OF p] by (simp add: new_handle_def)
  from a have y: "on_yk4_path d" by simp
  show "enabled h = (if capabilities s \<noteq> 0 then capabilities s
                         else (capabilities h AND NOT sum_TRANSPORT) OR transports (drv_mode d))"
    using assms e k
    by (auto simp: YubiKey_init_def classify_yk4 [OF y] p default_enabled_def mode_def)
qed

text \<open>
  The statement at the NEO of \<open>neo_driver\<close> (first part) and at firmware 4.1.5 with
  a blob that holds only tag 0x01 with the value 0x3f (second part).
\<close>

theorem default_enabled_formula_witness:
  "YubiKey_init (Some neo_driver) = Inr neo_handle \<and>
   \<not> on_yk4_path neo_driver \<and>
   enabled neo_handle = 5 \<and>
   (capabilities neo_handle AND NOT sum_TRANSPORT) OR transports (drv_mode neo_driver) = 5 \<and>
   YubiKey_init (Some (yk4_driver [3, 1, 1, 63])) =
     Inr (yk4_handle [3, 1, 1, 63] ''YubiKey 4'' 63 63) \<and>
   on_yk4_path (yk4_driver [3, 1, 1, 63]) \<and>
   drv_read_capabilities (yk4_driver [3, 1, 1, 63]) \<noteq> [] \<and>
   parse_tlv_list (capability_payload (drv_read_capabilities (yk4_driver [3, 1, 1, 63]))) =
     Inr [1 \<mapsto> [63]] \<and>
   [1 \<mapsto> [63 :: byte]] YK4_ENABLED_TAG = None \<and>
   parse_capabilities ((new_handle (yk4_driver [3, 1, 1, 63]))\<lparr>device_name := ''YubiKey 4''\<rparr>)
     (drv_read_capabilities (yk4_driver [3, 1, 1, 63])) =
       Inr (yk4_handle [3, 1, 1, 63] ''YubiKey 4'' 63 63) \<and>
   enabled (yk4_handle [3, 1, 1, 63] ''YubiKey 4'' 63 63) = 63"
proof -
  have a: "\<not> on_yk4_path neo_driver"
    by (simp add: on_yk4_path_def example_defs)
  have b: "(capabilities neo_handle AND NOT sum_TRANSPORT) OR transports (drv_mode neo_driver) = 5"
    by (simp add: new_handle_def vocabulary_defs example_defs)
  have c: "on_yk4_path (yk4_driver [3, 1, 1, 63])"
    "drv_read_capabilities (yk4_driver [3, 1, 1, 63]) \<noteq> []"
    by (simp_all add: on_yk4_path_def example_defs)
  have d: "parse_tlv_list (capability_payload (drv_read_capabilities (yk4_driver [3, 1, 1, 63]))) =
     Inr [1 \<mapsto> [63]]"
    by (simp add: parse_tlv_list_def capability_payload_def example_defs)
  have e: "[1 \<mapsto> [63 :: byte]] YK4_ENABLED_TAG = None"
    by (simp add: YK4_ENABLED_TAG_def)
  have f: "parse_capabilities
      ((new_handle (yk4_driver [3, 1, 1, 63]))\<lparr>device_name := ''YubiKey 4''\<rparr>)
      (drv_read_capabilities (yk4_driver [3, 1, 1, 63])) =
        Inr (yk4_handle [3, 1, 1, 63] ''YubiKey 4'' 63 63)"
    by (simp add: handle_defs vocabulary_defs example_defs)
  have g: "capabilities (yk4_handle [3, 1, 1, 63] ''YubiKey 4'' 63 63) = 63"
    by (simp add: yk4_handle_def)
  have n: "enabled neo_handle =
      (capabilities neo_handle AND NOT sum_TRANSPORT) OR transports (drv_mode neo_driver)"
    using default_enabled_formula [OF init_neo_driver] a by blast
  have y: "enabled (yk4_handle [3, 1, 1, 63] ''YubiKey 4'' 63 63) = 63"
    using default_enabled_formula [OF init_yk4_full,
        of "[1 \<mapsto> [63]]" "yk4_handle [3, 1, 1, 63] ''YubiKey 4'' 63 63"] c d e f g
    by simp
  show ?thesis
    using a b c d e f n y init_neo_driver init_yk4_full by simp
qed

text \<open>
  C9 as stated fails on the branch for firmware at least 4.1.0: a blob that holds
  only tag 0x01 with the value 0x3f, on a device whose reported mode has the OTP
  transport alone, gives \<open>enabled = 0x3f\<close>, while the capabilities with the
  transport bits cleared, OR-ed with the transports of the mode, are 0x39.
\<close>

theorem default_enabled_counterexample:
  "YubiKey_init (Some (yk4_driver [3, 1, 1, 63])) =
     Inr (yk4_handle [3, 1, 1, 63] ''YubiKey 4'' 63 63) \<and>
   version_ge (drv_version (yk4_driver [3, 1, 1, 63])) (4, 1, 0) \<and>
   parse_tlv_list (capability_payload (drv_read_capabilities (yk4_driver [3, 1, 1, 63]))) =
     Inr [1 \<mapsto> [63]] \<and>
   [1 \<mapsto> [63 :: byte]] YK4_ENABLED_TAG = None \<and>
   enabled (yk4_handle [3, 1, 1, 63] ''YubiKey 4'' 63 63) = 63 \<and>
   (capabilities (yk4_handle [3, 1, 1, 63] ''YubiKey 4'' 63 63) AND NOT sum_TRANSPORT) OR
     transports (mode (yk4_handle [3, 1, 1, 63] ''YubiKey 4'' 63 63)) = 57 \<and>
   enabled (yk4_handle [3, 1, 1, 63] ''YubiKey 4'' 63 63) \<noteq>
     (capabilities (yk4_handle [3, 1, 1, 63] ''YubiKey 4'' 63 63) AND NOT sum_TRANSPORT) OR
       transports (mode (yk4_handle [3, 1, 1, 63] ''YubiKey 4'' 63 63))"
proof -
  have a: "(capabilities (yk4_handle [3, 1, 1, 63] ''YubiKey 4'' 63 63) AND NOT sum_TRANSPORT) OR
     transports (mode (yk4_handle [3, 1, 1, 63] ''YubiKey 4'' 63 63)) = 57"
    by (simp add: mode_def new_handle_def vocabulary_defs example_defs)
  have b: "enabled (yk4_handle [3, 1, 1, 63] ''YubiKey 4'' 63 63) = 63"
    by (simp add: yk4_handle_def)
  have c: "parse_tlv_list (capability_payload (drv_read_capabilities (yk4_driver [3, 1, 1, 63]))) =
     Inr [1 \<mapsto> [63]]"
    by (simp add: parse_tlv_list_def capability_payload_def example_defs)
  have d: "version_ge (drv_version (yk4_driver [3, 1, 1, 63])) (4, 1, 0)"
    by (simp add: example_defs)
  show ?thesis
    unfolding a b using c d init_yk4_full by (simp add: YK4_ENABLED_TAG_def)
qed

text \<open>
  C1, as amended. For every constructed handle, \<open>enabled\<close> is a subset of
  \<open>capabilities\<close> exactly in these cases. On the Security Key, Plus, NEO and legacy
  branches, and on the branch for firmware at least 4.1.0 when the blob is empty:
  exactly when the transports of the reported mode are among the capabilities. On
  the branch for firmware at least 4.1.0 with a non-empty blob, whose payload the
  TLV decoder has accepted: without tag 0x03, exactly when the handle has not been
  renamed YubiKey Edge, if the capabilities are not zero, and exactly when the
  transports of the reported mode are among the capabilities, if they are zero;
  with tag 0x03 holding zero, exactly when the transports of the reported mode are
  among the capabilities; with tag 0x03 holding another value, \<open>enabled\<close> is that
  value, so exactly when that value is a subset of the capabilities.
\<close>

theorem enabled_subset_capabilities:
  assumes "YubiKey_init (Some d) = Inr h"
  shows "(\<not> on_yk4_path d \<or> drv_read_capabilities d = [] \<longrightarrow>
            (enabled h AND capabilities h = enabled h) = has_mode h (mode h)) \<and>
         (on_yk4_path d \<and> drv_read_capabilities d \<noteq> [] \<longrightarrow>
            (\<exists>tlv. parse_tlv_list (capability_payload (drv_read_capabilities d)) = Inr tlv \<and>
               (case tlv YK4_ENABLED_TAG of
                  None \<Rightarrow>
                    (if capabilities h = 0
                     then (enabled h AND capabilities h = enabled h) = has_mode h (mode h)
                     else (enabled h AND capabilities h = enabled h) =
                            (device_name h \<noteq> ''YubiKey Edge''))
                | Some v \<Rightarrow>
                    (if be_value v = 0
                     then (enabled h AND capabilities h = enabled h) = has_mode h (mode h)
                     else enabled h = be_value v \<and>
                          (enabled h AND capabilities h = enabled h) =
                            (be_value v AND capabilities h = be_value v)))))"
proof (intro conjI impI)
  assume a: "\<not> on_yk4_path d \<or> drv_read_capabilities d = []"
  from assms obtain s0 where c: "classify (new_handle d) = Inr s0" and h: "h = default_enabled s0"
    by (auto simp: YubiKey_init_def split: sum.splits)
  have z: "enabled s0 = 0" using classify_enabled_zero [OF c a] by simp
  show "(enabled h AND capabilities h = enabled h) = has_mode h (mode h)"
    unfolding h by (rule default_enabled_zero_iff [OF z])
next
  assume a: "on_yk4_path d \<and> drv_read_capabilities d \<noteq> []"
  then have y: "on_yk4_path d" and ne: "drv_read_capabilities d \<noteq> []" by simp_all
  from assms obtain s
    where p: "parse_capabilities ((new_handle d)\<lparr>device_name := ''YubiKey 4''\<rparr>)
                (drv_read_capabilities d) = Inr s"
    by (auto simp: YubiKey_init_def classify_yk4 [OF y] split: sum.splits)
  from parse_capabilities_decoded [OF p ne] obtain tlv
    where t: "parse_tlv_list (capability_payload (drv_read_capabilities d)) = Inr tlv" by blast
  have nm: "device_name s = ''YubiKey 4''" using parse_capabilities_keeps [OF p] by simp
  define s0 where "s0 = (if capabilities s = 0x07
      then s\<lparr>device_name := ''YubiKey Edge'', capabilities := CAPABILITY_OTP OR CAPABILITY_U2F\<rparr>
      else s)"
  have h: "h = default_enabled s0"
    using assms by (simp add: YubiKey_init_def classify_yk4 [OF y] p s0_def)
  have es: "enabled s0 = enabled s" by (simp add: s0_def)
  have "case tlv YK4_ENABLED_TAG of
                  None \<Rightarrow>
                    (if capabilities h = 0
                     then (enabled h AND capabilities h = enabled h) = has_mode h (mode h)
                     else (enabled h AND capabilities h = enabled h) =
                            (device_name h \<noteq> ''YubiKey Edge''))
                | Some v \<Rightarrow>
                    (if be_value v = 0
                     then (enabled h AND capabilities h = enabled h) = has_mode h (mode h)
                     else enabled h = be_value v \<and>
                          (enabled h AND capabilities h = enabled h) =
                            (be_value v AND capabilities h = be_value v))"
  proof (cases "tlv YK4_ENABLED_TAG")
    case None
    have e: "enabled s = capabilities s"
      using parse_capabilities_no_enabled_tag [OF p ne t None] .
    show ?thesis
    proof (cases "capabilities s = 0")
      case True
      then have z: "enabled s0 = 0" using e es by simp
      have "capabilities h = 0" using True h by (simp add: default_enabled_def s0_def)
      then show ?thesis
        using None default_enabled_zero_iff [OF z] h by simp
    next
      case False
      then have nz: "enabled s0 \<noteq> 0" using e es by simp
      have hh: "h = s0" using h nz by (simp add: default_enabled_def)
      have c0: "capabilities h \<noteq> 0"
        using False hh by (simp add: s0_def vocabulary_defs)
      show ?thesis
        using None c0 hh e nm by (simp add: s0_def vocabulary_defs)
    qed
  next
    case (Some v)
    have e: "enabled s = be_value v"
      using parse_capabilities_enabled_tag [OF p ne t Some] .
    show ?thesis
    proof (cases "be_value v = 0")
      case True
      then have z: "enabled s0 = 0" using e es by simp
      show ?thesis using Some True default_enabled_zero_iff [OF z] h by simp
    next
      case False
      then have nz: "enabled s0 \<noteq> 0" using e es by simp
      have hh: "h = s0" using h nz by (simp add: default_enabled_def)
      have "enabled h = be_value v" using hh es e by simp
      then show ?thesis using Some False by simp
    qed
  qed
  with t show "\<exists>tlv. parse_tlv_list (capability_payload (drv_read_capabilities d)) = Inr tlv \<and>
               (case tlv YK4_ENABLED_TAG of
                  None \<Rightarrow>
                    (if capabilities h = 0
                     then (enabled h AND capabilities h = enabled h) = has_mode h (mode h)
                     else (enabled h AND capabilities h = enabled h) =
                            (device_name h \<noteq> ''YubiKey Edge''))
                | Some v \<Rightarrow>
                    (if be_value v = 0
                     then (enabled h AND capabilities h = enabled h) = has_mode h (mode h)
                     else enabled h = be_value v \<and>
                          (enabled h AND capabilities h = enabled h) =
                            (be_value v AND capabilities h = be_value v)))"
    by blast
qed

text \<open>
  The statement at the NEO of \<open>neo_driver\<close>, and at firmware 4.1.5 with three
  blobs: one that holds only tag 0x01, one whose tag 0x03 holds 0x03, and one whose
  tag 0x03 holds zero.
\<close>

theorem enabled_subset_capabilities_witness:
  "YubiKey_init (Some neo_driver) = Inr neo_handle \<and>
   \<not> on_yk4_path neo_driver \<and>
   has_mode neo_handle (mode neo_handle) \<and>
   enabled neo_handle AND capabilities neo_handle = enabled neo_handle \<and>
   YubiKey_init (Some (yk4_driver [3, 1, 1, 63])) =
     Inr (yk4_handle [3, 1, 1, 63] ''YubiKey 4'' 63 63) \<and>
   on_yk4_path (yk4_driver [3, 1, 1, 63]) \<and>
   drv_read_capabilities (yk4_driver [3, 1, 1, 63]) \<noteq> [] \<and>
   parse_tlv_list (capability_payload (drv_read_capabilities (yk4_driver [3, 1, 1, 63]))) =
     Inr [1 \<mapsto> [63]] \<and>
   device_name (yk4_handle [3, 1, 1, 63] ''YubiKey 4'' 63 63) \<noteq> ''YubiKey Edge'' \<and>
   enabled (yk4_handle [3, 1, 1, 63] ''YubiKey 4'' 63 63) AND
     capabilities (yk4_handle [3, 1, 1, 63] ''YubiKey 4'' 63 63) =
       enabled (yk4_handle [3, 1, 1, 63] ''YubiKey 4'' 63 63) \<and>
   YubiKey_init (Some (yk4_driver [6, 1, 1, 1, 3, 1, 3])) =
     Inr (yk4_handle [6, 1, 1, 1, 3, 1, 3] ''YubiKey 4'' 1 3) \<and>
   on_yk4_path (yk4_driver [6, 1, 1, 1, 3, 1, 3]) \<and>
   drv_read_capabilities (yk4_driver [6, 1, 1, 1, 3, 1, 3]) \<noteq> [] \<and>
   parse_tlv_list (capability_payload (drv_read_capabilities (yk4_driver [6, 1, 1, 1, 3, 1, 3]))) =
     Inr [1 \<mapsto> [1], 3 \<mapsto> [3]] \<and>
   be_value [3] = 3 \<and>
   enabled (yk4_handle [6, 1, 1, 1, 3, 1, 3] ''YubiKey 4'' 1 3) = be_value [3] \<and>
   YubiKey_init (Some (yk4_driver [6, 1, 1, 63, 3, 1, 0])) =
     Inr (yk4_handle [6, 1, 1, 63, 3, 1, 0] ''YubiKey 4'' 63 57) \<and>
   on_yk4_path (yk4_driver [6, 1, 1, 63, 3, 1, 0]) \<and>
   drv_read_capabilities (yk4_driver [6, 1, 1, 63, 3, 1, 0]) \<noteq> [] \<and>
   parse_tlv_list (capability_payload (drv_read_capabilities (yk4_driver [6, 1, 1, 63, 3, 1, 0]))) =
     Inr [1 \<mapsto> [63], 3 \<mapsto> [0]] \<and>
   be_value [0] = 0 \<and>
   has_mode (yk4_handle [6, 1, 1, 63, 3, 1, 0] ''YubiKey 4'' 63 57)
     (mode (yk4_handle [6, 1, 1, 63, 3, 1, 0] ''YubiKey 4'' 63 57)) \<and>
   enabled (yk4_handle [6, 1, 1, 63, 3, 1, 0] ''YubiKey 4'' 63 57) AND
     capabilities (yk4_handle [6, 1, 1, 63, 3, 1, 0] ''YubiKey 4'' 63 57) =
       enabled (yk4_handle [6, 1, 1, 63, 3, 1, 0] ''YubiKey 4'' 63 57)"
proof -
  have a: "\<not> on_yk4_path neo_driver" "has_mode neo_handle (mode neo_handle)"
    by (simp_all add: has_mode_def mode_def on_yk4_path_def new_handle_def example_defs)
  have n: "enabled neo_handle AND capabilities neo_handle = enabled neo_handle"
    using enabled_subset_capabilities [OF init_neo_driver] a by blast
  have b: "on_yk4_path (yk4_driver [3, 1, 1, 63]) \<and>
      drv_read_capabilities (yk4_driver [3, 1, 1, 63]) \<noteq> []"
    by (simp add: on_yk4_path_def example_defs)
  have c: "parse_tlv_list (capability_payload (drv_read_capabilities
      (yk4_driver [3, 1, 1, 63]))) = Inr [1 \<mapsto> [63]]"
    by (simp add: parse_tlv_list_def capability_payload_def example_defs)
  have d: "device_name (yk4_handle [3, 1, 1, 63] ''YubiKey 4'' 63 63) \<noteq> ''YubiKey Edge''"
    "capabilities (yk4_handle [3, 1, 1, 63] ''YubiKey 4'' 63 63) \<noteq> 0"
    by (simp_all add: yk4_handle_def)
  have y: "enabled (yk4_handle [3, 1, 1, 63] ''YubiKey 4'' 63 63) AND
     capabilities (yk4_handle [3, 1, 1, 63] ''YubiKey 4'' 63 63) =
       enabled (yk4_handle [3, 1, 1, 63] ''YubiKey 4'' 63 63)"
    using enabled_subset_capabilities [OF init_yk4_full, THEN conjunct2, THEN mp, OF b] d
    by (auto simp: c YK4_ENABLED_TAG_def)
  have e: "on_yk4_path (yk4_driver [6, 1, 1, 1, 3, 1, 3]) \<and>
      drv_read_capabilities (yk4_driver [6, 1, 1, 1, 3, 1, 3]) \<noteq> []"
    by (simp add: on_yk4_path_def example_defs)
  have f: "parse_tlv_list (capability_payload (drv_read_capabilities
      (yk4_driver [6, 1, 1, 1, 3, 1, 3]))) = Inr [1 \<mapsto> [1], 3 \<mapsto> [3]]"
    by (simp add: parse_tlv_list_def capability_payload_def example_defs)
  have g: "be_value [3] = 3" "be_value [0] = 0" by (simp_all add: be_value_def)
  have z: "enabled (yk4_handle [6, 1, 1, 1, 3, 1, 3] ''YubiKey 4'' 1 3) = be_value [3]"
    using enabled_subset_capabilities [OF init_yk4_tagged, THEN conjunct2, THEN mp, OF e]
    by (auto simp: f g YK4_ENABLED_TAG_def)
  have i: "on_yk4_path (yk4_driver [6, 1, 1, 63, 3, 1, 0]) \<and>
      drv_read_capabilities (yk4_driver [6, 1, 1, 63, 3, 1, 0]) \<noteq> []"
    by (simp add: on_yk4_path_def example_defs)
  have j: "parse_tlv_list (capability_payload (drv_read_capabilities
      (yk4_driver [6, 1, 1, 63, 3, 1, 0]))) = Inr [1 \<mapsto> [63], 3 \<mapsto> [0]]"
    by (simp add: parse_tlv_list_def capability_payload_def example_defs)
  have k: "has_mode (yk4_handle [6, 1, 1, 63, 3, 1, 0] ''YubiKey 4'' 63 57)
     (mode (yk4_handle [6, 1, 1, 63, 3, 1, 0] ''YubiKey 4'' 63 57))"
    by (simp add: has_mode_def mode_def new_handle_def example_defs)
  have w: "enabled (yk4_handle [6, 1, 1, 63, 3, 1, 0] ''YubiKey 4'' 63 57) AND
     capabilities (yk4_handle [6, 1, 1, 63, 3, 1, 0] ''YubiKey 4'' 63 57) =
       enabled (yk4_handle [6, 1, 1, 63, 3, 1, 0] ''YubiKey 4'' 63 57)"
    using enabled_subset_capabilities [OF init_yk4_zero, THEN conjunct2, THEN mp, OF i] k
    by (auto simp: j g YK4_ENABLED_TAG_def)
  show ?thesis
    using a n b c d(1) y e f g z i j k w init_neo_driver init_yk4_full init_yk4_tagged
      init_yk4_zero
    by blast
qed

text \<open>
  C1 as stated fails in three ways. A blob whose tag 0x01 holds 0x07 and that has no
  tag 0x03 gives a YubiKey Edge with capabilities 0x03 and \<open>enabled = 0x07\<close>. A blob
  whose tag 0x01 holds 0x01 and whose tag 0x03 holds 0x03 gives capabilities 0x01
  and \<open>enabled = 0x03\<close>. A NEO over CCID whose probe returns 0x0c and whose reported
  mode has the OTP and CCID transports gives capabilities 0x0c and \<open>enabled = 0x0d\<close>.
\<close>

theorem enabled_subset_counterexample:
  "YubiKey_init (Some (yk4_driver [3, 1, 1, 7])) =
     Inr (yk4_handle [3, 1, 1, 7] ''YubiKey Edge'' 3 7) \<and>
   enabled (yk4_handle [3, 1, 1, 7] ''YubiKey Edge'' 3 7) AND
     capabilities (yk4_handle [3, 1, 1, 7] ''YubiKey Edge'' 3 7) \<noteq>
       enabled (yk4_handle [3, 1, 1, 7] ''YubiKey Edge'' 3 7) \<and>
   YubiKey_init (Some (yk4_driver [6, 1, 1, 1, 3, 1, 3])) =
     Inr (yk4_handle [6, 1, 1, 1, 3, 1, 3] ''YubiKey 4'' 1 3) \<and>
   enabled (yk4_handle [6, 1, 1, 1, 3, 1, 3] ''YubiKey 4'' 1 3) AND
     capabilities (yk4_handle [6, 1, 1, 1, 3, 1, 3] ''YubiKey 4'' 1 3) \<noteq>
       enabled (yk4_handle [6, 1, 1, 1, 3, 1, 3] ''YubiKey 4'' 1 3) \<and>
   YubiKey_init (Some (neo_ccid_driver 12 (Some 5))) = Inr (neo_ccid_handle 12 (Some 5) 13) \<and>
   enabled (neo_ccid_handle 12 (Some 5) 13) AND capabilities (neo_ccid_handle 12 (Some 5) 13) \<noteq>
     enabled (neo_ccid_handle 12 (Some 5) 13)"
proof -
  have a: "enabled (yk4_handle [3, 1, 1, 7] ''YubiKey Edge'' 3 7) AND
     capabilities (yk4_handle [3, 1, 1, 7] ''YubiKey Edge'' 3 7) \<noteq>
       enabled (yk4_handle [3, 1, 1, 7] ''YubiKey Edge'' 3 7)"
    by (simp add: yk4_handle_def)
  have b: "enabled (yk4_handle [6, 1, 1, 1, 3, 1, 3] ''YubiKey 4'' 1 3) AND
     capabilities (yk4_handle [6, 1, 1, 1, 3, 1, 3] ''YubiKey 4'' 1 3) \<noteq>
       enabled (yk4_handle [6, 1, 1, 1, 3, 1, 3] ''YubiKey 4'' 1 3)"
    by (simp add: yk4_handle_def)
  have c: "enabled (neo_ccid_handle 12 (Some 5) 13) AND
     capabilities (neo_ccid_handle 12 (Some 5) 13) \<noteq> enabled (neo_ccid_handle 12 (Some 5) 13)"
    by (simp add: neo_ccid_handle_def)
  show ?thesis
    using a b c init_yk4_edge init_yk4_tagged init_neo_ccid_12 by blast
qed

end
